theory Spec2Isabelle
  imports Main "HOL-Library.Sublist"
begin

section \<open>JavaScript values, completions and the store\<close>

text \<open>
  The script \<^verbatim>\<open>src/index.js\<close> handles strings (order names and identifiers) and
  the value \<^verbatim>\<open>undefined\<close> (what \<^verbatim>\<open>console.log\<close> and a block-bodied arrow
  function return, and what reading a missing property of a string gives). On these two
  kinds of value the strict comparison \<^verbatim>\<open>!==\<close> is inequality of the datatype.
\<close>

datatype jsval = JUndefined | JString string

text \<open>The only exception the operations of the script can raise.\<close>

datatype js_error = TypeError

text \<open>
  Arrays are mutable objects that are shared by reference: the store maps an address to
  the elements of the array that lives there. \<open>fresh\<close> is the next address that an
  allocation hands out, and \<open>console\<close> is the sequence of lines written by
  \<^verbatim>\<open>console.log\<close>, oldest first.
\<close>

record js_state =
  arrays :: "nat \<Rightarrow> jsval list"
  fresh :: nat
  console :: "string list"

text \<open>\<^verbatim>\<open>${v}\<close> inside a template literal.\<close>

fun to_string :: "jsval \<Rightarrow> string" where
  "to_string JUndefined = ''undefined''"
| "to_string (JString s) = s"

text \<open>An array literal or a library function building a new array.\<close>

definition array_alloc :: "jsval list \<Rightarrow> js_state \<Rightarrow> nat \<times> js_state" where
  "array_alloc xs s =
     (fresh s, s\<lparr>arrays := (arrays s)(fresh s := xs), fresh := Suc (fresh s)\<rparr>)"

text \<open>\<^verbatim>\<open>a.push(v)\<close>: the array at \<open>a\<close> grows in place.\<close>

definition array_push :: "nat \<Rightarrow> jsval \<Rightarrow> js_state \<Rightarrow> js_state" where
  "array_push a v s = s\<lparr>arrays := (arrays s)(a := arrays s a @ [v])\<rparr>"

text \<open>
  \<^verbatim>\<open>a.filter(p)\<close>: the callback runs on the elements from left to right, the
  first exception it raises ends the call, and otherwise the kept elements go, in their
  order, into a new array. The array at \<open>a\<close> is not written.
\<close>

fun filter_elems :: "(jsval \<Rightarrow> js_error + bool) \<Rightarrow> jsval list \<Rightarrow> js_error + jsval list" where
  "filter_elems p [] = Inr []"
| "filter_elems p (x # xs) =
     (case p x of
        Inl e \<Rightarrow> Inl e
      | Inr keep \<Rightarrow>
          (case filter_elems p xs of
             Inl e \<Rightarrow> Inl e
           | Inr ys \<Rightarrow> Inr (if keep then x # ys else ys)))"

definition array_filter ::
  "(jsval \<Rightarrow> js_error + bool) \<Rightarrow> nat \<Rightarrow> js_state \<Rightarrow> js_error + (nat \<times> js_state)" where
  "array_filter p a s =
     (case filter_elems p (arrays s a) of
        Inl e \<Rightarrow> Inl e
      | Inr ys \<Rightarrow> Inr (array_alloc ys s))"

definition console_log :: "string \<Rightarrow> js_state \<Rightarrow> js_state" where
  "console_log line s = s\<lparr>console := console s @ [line]\<rparr>"

text \<open>
  \<^verbatim>\<open>v.id\<close>: reading a property of \<^verbatim>\<open>undefined\<close> raises a TypeError; a
  string has no property \<^verbatim>\<open>id\<close>, so the read gives \<^verbatim>\<open>undefined\<close>.
\<close>

fun get_id :: "jsval \<Rightarrow> js_error + jsval" where
  "get_id JUndefined = Inl TypeError"
| "get_id (JString s) = Inr JUndefined"

section \<open>The manager with one method per task\<close>

text \<open>
  An \<^verbatim>\<open>OrderManager\<close> object has one field, the reference to its array of
  identifiers. A method takes the object and the state and gives back the returned value,
  the object (whose field \<^verbatim>\<open>cancelOrder\<close> reassigns) and the state.
\<close>

record OrderManager =
  orders :: nat

definition OrderManager_new :: "js_state \<Rightarrow> OrderManager \<times> js_state" where
  "OrderManager_new s = (let (a, s1) = array_alloc [] s in (\<lparr>orders = a\<rparr>, s1))"

definition placeOrder ::
  "OrderManager \<Rightarrow> jsval \<Rightarrow> jsval \<Rightarrow> js_state \<Rightarrow> js_error + (jsval \<times> OrderManager \<times> js_state)" where
  "placeOrder this order id' s =
     (let s1 = array_push (orders this) id' s
      in Inr (JString (''You have successfully ordered '' @ to_string order
                        @ '' ('' @ to_string id' @ '')''), this, s1))"

definition trackOrder ::
  "OrderManager \<Rightarrow> jsval \<Rightarrow> js_state \<Rightarrow> js_error + (jsval \<times> OrderManager \<times> js_state)" where
  "trackOrder this id' s =
     Inr (JString (''Your order '' @ to_string id' @ '' will arrive in 20 minutes.''), this, s)"

definition cancelOrder ::
  "OrderManager \<Rightarrow> jsval \<Rightarrow> js_state \<Rightarrow> js_error + (jsval \<times> OrderManager \<times> js_state)" where
  "cancelOrder this id' s =
     (case array_filter (\<lambda>order. Inr (order \<noteq> id')) (orders this) s of
        Inl e \<Rightarrow> Inl e
      | Inr (a, s1) \<Rightarrow>
          Inr (JString (''You have canceled your order '' @ to_string id'),
               this\<lparr>orders := a\<rparr>, s1))"

section \<open>The manager that executes commands\<close>

text \<open>
  An \<^verbatim>\<open>OrderManager1\<close> object has the same single field \<^verbatim>\<open>orders\<close>, written
  \<open>orders1\<close> here because the selectors of two records share one name space (likewise
  the parameter \<^verbatim>\<open>id\<close> is written \<open>id'\<close>). A \<^verbatim>\<open>Command\<close> object
  has one property, \<^verbatim>\<open>execute\<close>, the function it wraps.

  A function sees how it was called through \<^verbatim>\<open>this\<close>. Called as a method,
  \<^verbatim>\<open>command.execute(...)\<close>, the receiver is the command object, whose only content
  is that same function; called as a plain function, \<^verbatim>\<open>f(...)\<close>, the receiver is
  the default one (\<^verbatim>\<open>undefined\<close> in strict code, the global object otherwise). So a
  wrapped function takes the receiver first, then the reference to the array of orders,
  then the remaining arguments. An arrow function has no receiver of its own: the three
  functions that the factories build ignore that argument.
\<close>

datatype receiver = ThisDefault | ThisCommand

record OrderManager1 =
  orders1 :: nat

datatype Command =
  Command (execute:
    "receiver \<Rightarrow> nat \<Rightarrow> jsval list \<Rightarrow> js_state \<Rightarrow> js_error + (jsval \<times> js_state)")

definition OrderManager1_new :: "js_state \<Rightarrow> OrderManager1 \<times> js_state" where
  "OrderManager1_new s = (let (a, s1) = array_alloc [] s in (\<lparr>orders1 = a\<rparr>, s1))"

definition OrderManager1_execute ::
  "OrderManager1 \<Rightarrow> Command \<Rightarrow> jsval list \<Rightarrow> js_state \<Rightarrow> js_error + (jsval \<times> js_state)" where
  "OrderManager1_execute this command args s =
     execute command ThisCommand (orders1 this) args s"

text \<open>
  What the specification compares \<^verbatim>\<open>execute\<close> with: the wrapped function taken out
  of the command and called directly, \<^verbatim>\<open>const f = command.execute; f(orders, ...args)\<close>.
\<close>

definition direct_call ::
  "Command \<Rightarrow> nat \<Rightarrow> jsval list \<Rightarrow> js_state \<Rightarrow> js_error + (jsval \<times> js_state)" where
  "direct_call command a args s = execute command ThisDefault a args s"

definition PlaceOrderCommand :: "jsval \<Rightarrow> jsval \<Rightarrow> Command" where
  "PlaceOrderCommand order id' =
     Command (\<lambda>receiver orders args s.
       let s1 = array_push orders id' s;
           s2 = console_log (''You have successfully ordered '' @ to_string order
                              @ '' ('' @ to_string id' @ '')'') s1
       in Inr (JUndefined, s2))"

text \<open>
  The assignment in \<^verbatim>\<open>orders = orders.filter(...)\<close> rebinds the parameter to the new
  array; nothing reads the parameter afterwards.
\<close>

definition CancelOrderCommand :: "jsval \<Rightarrow> Command" where
  "CancelOrderCommand id' =
     Command (\<lambda>receiver orders args s.
       case array_filter
              (\<lambda>order. case get_id order of Inl e \<Rightarrow> Inl e | Inr v \<Rightarrow> Inr (v \<noteq> id'))
              orders s of
         Inl e \<Rightarrow> Inl e
       | Inr (orders', s1) \<Rightarrow>
           Inr (JUndefined,
                console_log (''You have canceled your order '' @ to_string id') s1))"

definition TrackOrderCommand :: "jsval \<Rightarrow> Command" where
  "TrackOrderCommand id' =
     Command (\<lambda>receiver orders args s.
       Inr (JUndefined,
            console_log (''Your order '' @ to_string id' @ '' will arrive in 20 minutes.'') s))"

section \<open>The collection a manager owns\<close>

text \<open>The elements of the array that the manager's field refers to.\<close>

definition collection :: "OrderManager \<Rightarrow> js_state \<Rightarrow> jsval list" where
  "collection this s = arrays s (orders this)"

definition collection1 :: "OrderManager1 \<Rightarrow> js_state \<Rightarrow> jsval list" where
  "collection1 this s = arrays s (orders1 this)"

section \<open>Facts about the store operations\<close>

lemma filter_elems_total:
  "filter_elems (\<lambda>x. Inr (q x)) xs = Inr (filter q xs)"
  by (induction xs) simp_all

lemma filter_elems_id_of_strings:
  "filter_elems (\<lambda>order. case get_id order of Inl e \<Rightarrow> Inl e | Inr v \<Rightarrow> Inr (v \<noteq> JString i))
     (map JString xs) = Inr (map JString xs)"
  by (induction xs) simp_all

lemma filter_neq_removeAll:
  "filter (\<lambda>y. y \<noteq> x) xs = removeAll x xs"
  by (induction xs) auto

lemma cancelOrder_result:
  "cancelOrder m i s =
     Inr (JString (''You have canceled your order '' @ to_string i),
          m\<lparr>orders := fresh s\<rparr>,
          s\<lparr>arrays := (arrays s)(fresh s := filter (\<lambda>order. order \<noteq> i) (arrays s (orders m))),
            fresh := Suc (fresh s)\<rparr>)"
  by (simp add: cancelOrder_def array_filter_def filter_elems_total array_alloc_def)

lemma CancelOrderCommand_result:
  assumes "arrays s a = map JString xs"
  shows "execute (CancelOrderCommand (JString i)) r a args s =
     Inr (JUndefined,
          console_log (''You have canceled your order '' @ i)
            (s\<lparr>arrays := (arrays s)(fresh s := map JString xs), fresh := Suc (fresh s)\<rparr>))"
  using assms
  by (simp add: CancelOrderCommand_def array_filter_def filter_elems_id_of_strings array_alloc_def)

lemma placeOrder_result:
  "placeOrder m order i s =
     Inr (JString (''You have successfully ordered '' @ to_string order
                    @ '' ('' @ to_string i @ '')''),
          m, s\<lparr>arrays := (arrays s)(orders m := arrays s (orders m) @ [i])\<rparr>)"
  by (simp add: placeOrder_def array_push_def)

lemma collection_after_cancelOrder:
  "collection (m\<lparr>orders := fresh s\<rparr>)
     (s\<lparr>arrays := (arrays s)(fresh s := ys), fresh := Suc (fresh s)\<rparr>) = ys"
  by (simp add: collection_def)

lemma collection_after_placeOrder:
  "collection m (s\<lparr>arrays := (arrays s)(orders m := arrays s (orders m) @ [i])\<rparr>)
     = collection m s @ [i]"
  by (simp add: collection_def)

lemma PlaceOrderCommand_result:
  "execute (PlaceOrderCommand order i) r a args s =
     Inr (JUndefined,
          console_log (''You have successfully ordered '' @ to_string order
                        @ '' ('' @ to_string i @ '')'')
            (s\<lparr>arrays := (arrays s)(a := arrays s a @ [i])\<rparr>))"
  by (simp add: PlaceOrderCommand_def array_push_def)

lemma TrackOrderCommand_result:
  "execute (TrackOrderCommand i) r a args s =
     Inr (JUndefined,
          console_log (''Your order '' @ to_string i @ '' will arrive in 20 minutes.'') s)"
  by (simp add: TrackOrderCommand_def)

text \<open>
  The exception branch of the cancel command is live: an \<^verbatim>\<open>undefined\<close> element makes
  the property read fail. String identifiers never put such an element into the array.
\<close>

lemma CancelOrderCommand_undefined_element:
  assumes "arrays s a = JUndefined # xs"
  shows "execute (CancelOrderCommand i) r a args s = Inl TypeError"
  using assms by (simp add: CancelOrderCommand_def array_filter_def)

lemma PlaceOrderCommand_keeps_strings:
  assumes "collection1 m s = map JString xs" and "orders1 m < fresh s"
  shows "\<exists>s'. OrderManager1_execute m (PlaceOrderCommand order (JString i)) args s
                 = Inr (JUndefined, s')
           \<and> collection1 m s' = map JString (xs @ [i]) \<and> orders1 m < fresh s'"
  using assms
  by (simp add: OrderManager1_execute_def PlaceOrderCommand_result collection1_def
        console_log_def)

text \<open>The functions built by the three factories do not look at their receiver.\<close>

lemma factory_commands_ignore_receiver:
  "execute (PlaceOrderCommand order i) r = execute (PlaceOrderCommand order i) r'"
  "execute (CancelOrderCommand i) r = execute (CancelOrderCommand i) r'"
  "execute (TrackOrderCommand i) r = execute (TrackOrderCommand i) r'"
  by (simp_all add: PlaceOrderCommand_def CancelOrderCommand_def TrackOrderCommand_def)

section \<open>The command path of cancellation\<close>

text \<open>
  Claim C1. Let the array of a dispatching manager be allocated and hold only strings.
  Executing \<^verbatim>\<open>CancelOrderCommand(id)\<close> for a string \<open>id\<close>, with any further arguments,
  returns \<^verbatim>\<open>undefined\<close> and leaves the manager's collection as it was. The predicate
  \<^verbatim>\<open>order.id !== id\<close> holds of every string element, so the array that
  \<^verbatim>\<open>filter\<close> builds (at the next free address) has all the elements of the
  collection; the confirmation is logged all the same.
\<close>

theorem cancel_command_is_noop:
  assumes "orders1 m < fresh s" and "collection1 m s = map JString xs"
  shows "\<exists>s'. OrderManager1_execute m (CancelOrderCommand (JString i)) args s = Inr (JUndefined, s')
           \<and> collection1 m s' = collection1 m s
           \<and> arrays s' (fresh s) = collection1 m s
           \<and> console s' = console s @ [''You have canceled your order '' @ i]"
proof -
  from assms(2) have "arrays s (orders1 m) = map JString xs"
    by (simp add: collection1_def)
  from CancelOrderCommand_result [OF this] assms show ?thesis
    by (simp add: OrderManager1_execute_def collection1_def console_log_def)
qed

theorem cancel_command_is_noop_witness:
  "\<exists>s'. OrderManager1_execute \<lparr>orders1 = 0\<rparr> (CancelOrderCommand (JString ''1234'')) []
          \<lparr>arrays = (\<lambda>a. [])(0 := [JString ''1234'']), fresh = 1, console = []\<rparr> = Inr (JUndefined, s')
        \<and> collection1 \<lparr>orders1 = 0\<rparr> s' = [JString ''1234'']"
  using cancel_command_is_noop [of "\<lparr>orders1 = 0\<rparr>"
      "\<lparr>arrays = (\<lambda>a. [])(0 := [JString ''1234'']), fresh = 1, console = []\<rparr>"
      "[''1234'']" "''1234''" "[]"]
  by (auto simp add: collection1_def)

section \<open>Dispatch\<close>

text \<open>
  Claim C2, as stated, fails: \<^verbatim>\<open>execute\<close> calls the wrapped function as a method of
  the command, and a function that looks at its receiver, such as
  \<^verbatim>\<open>new Command(function () { return this instanceof Command ? "command" : undefined; })\<close>,
  returns another value there than when it is called directly.
\<close>

theorem execute_differs_from_direct_call:
  "OrderManager1_execute \<lparr>orders1 = 0\<rparr>
      (Command (\<lambda>receiver orders args s.
         Inr (case receiver of ThisDefault \<Rightarrow> JUndefined | ThisCommand \<Rightarrow> JString ''command'', s)))
      [] \<lparr>arrays = (\<lambda>a. []), fresh = 1, console = []\<rparr>
   \<noteq> direct_call
      (Command (\<lambda>receiver orders args s.
         Inr (case receiver of ThisDefault \<Rightarrow> JUndefined | ThisCommand \<Rightarrow> JString ''command'', s)))
      0 [] \<lparr>arrays = (\<lambda>a. []), fresh = 1, console = []\<rparr>"
  by (simp add: OrderManager1_execute_def direct_call_def)

text \<open>
  Claim C2, amended. For every command and every list of further arguments,
  \<^verbatim>\<open>execute(command, ...args)\<close> on a dispatching manager is the call of the wrapped
  function, with the command as receiver, on the reference to the manager's array
  followed by the arguments: the same completion (returned value or exception) and the
  same resulting state. When the wrapped function does not depend on its receiver, as
  the arrow functions of the three factories do not, this is also the result of calling
  it directly.
\<close>

theorem execute_calls_wrapped_behavior:
  "OrderManager1_execute m command args s = execute command ThisCommand (orders1 m) args s
   \<and> (execute command ThisCommand = execute command ThisDefault \<longrightarrow>
        OrderManager1_execute m command args s = direct_call command (orders1 m) args s)
   \<and> OrderManager1_execute m (PlaceOrderCommand order i) args s
        = direct_call (PlaceOrderCommand order i) (orders1 m) args s
   \<and> OrderManager1_execute m (CancelOrderCommand i) args s
        = direct_call (CancelOrderCommand i) (orders1 m) args s
   \<and> OrderManager1_execute m (TrackOrderCommand i) args s
        = direct_call (TrackOrderCommand i) (orders1 m) args s"
  by (simp add: OrderManager1_execute_def direct_call_def
        factory_commands_ignore_receiver(1) [of _ _ ThisCommand ThisDefault]
        factory_commands_ignore_receiver(2,3) [of _ ThisCommand ThisDefault])

theorem execute_calls_wrapped_behavior_witness:
  "OrderManager1_execute \<lparr>orders1 = 0\<rparr>
      (Command (\<lambda>receiver orders args s. Inr (JString ''done'', array_push orders (JString ''7'') s)))
      [] \<lparr>arrays = (\<lambda>a. []), fresh = 1, console = []\<rparr>
   = direct_call
      (Command (\<lambda>receiver orders args s. Inr (JString ''done'', array_push orders (JString ''7'') s)))
      0 [] \<lparr>arrays = (\<lambda>a. []), fresh = 1, console = []\<rparr>"
  using execute_calls_wrapped_behavior [of "\<lparr>orders1 = 0\<rparr>"
      "Command (\<lambda>receiver orders args s. Inr (JString ''done'', array_push orders (JString ''7'') s))"
      "[]" "\<lparr>arrays = (\<lambda>a. []), fresh = 1, console = []\<rparr>",
      THEN conjunct2, THEN conjunct1]
  by simp

section \<open>The methods of the direct manager\<close>

text \<open>
  Claim C3. For every string \<open>id\<close> and every state, \<^verbatim>\<open>cancelOrder(id)\<close> returns the
  confirmation string, and the manager's collection afterwards has no occurrence of
  \<open>id\<close> and otherwise the same elements as before. When \<open>id\<close> was not in the
  collection, the collection afterwards is the one before, and the same confirmation is
  returned.
\<close>

theorem cancelOrder_removes_id:
  "\<exists>m' s'. cancelOrder m (JString i) s =
              Inr (JString (''You have canceled your order '' @ i), m', s')
     \<and> JString i \<notin> set (collection m' s')
     \<and> set (collection m' s') = set (collection m s) - {JString i}
     \<and> (JString i \<notin> set (collection m s) \<longrightarrow> collection m' s' = collection m s)"
proof -
  let ?ys = "filter (\<lambda>order. order \<noteq> JString i) (collection m s)"
  have "JString i \<notin> set ?ys" by simp
  moreover have "set ?ys = set (collection m s) - {JString i}" by auto
  moreover have "JString i \<notin> set (collection m s) \<longrightarrow> ?ys = collection m s"
    by (auto simp add: filter_id_conv)
  ultimately show ?thesis
    unfolding cancelOrder_result
    by (simp add: collection_after_cancelOrder del: set_filter) (simp add: collection_def)
qed

theorem cancelOrder_removes_id_witness:
  "\<exists>m' s'. cancelOrder \<lparr>orders = 0\<rparr> (JString ''999'')
              \<lparr>arrays = (\<lambda>a. [])(0 := [JString ''311'']), fresh = 1, console = []\<rparr> =
              Inr (JString ''You have canceled your order 999'', m', s')
     \<and> collection m' s' = [JString ''311'']"
  using cancelOrder_removes_id [of "\<lparr>orders = 0\<rparr>" "''999''"
      "\<lparr>arrays = (\<lambda>a. [])(0 := [JString ''311'']), fresh = 1, console = []\<rparr>"]
  by (auto simp add: collection_def)

text \<open>
  Claim C4. For all strings \<open>order\<close> and \<open>id\<close> and every state,
  \<^verbatim>\<open>placeOrder(order, id)\<close> leaves the manager's field as it is, makes the collection
  the former collection followed by \<open>id\<close>, and returns a string in which both \<open>order\<close>
  and \<open>id\<close> occur.
\<close>

theorem placeOrder_appends_id:
  "\<exists>r s'. placeOrder m (JString order) (JString i) s = Inr (JString r, m, s')
     \<and> r = ''You have successfully ordered '' @ order @ '' ('' @ i @ '')''
     \<and> collection m s' = collection m s @ [JString i]
     \<and> sublist order r \<and> sublist i r"
proof -
  let ?r = "''You have successfully ordered '' @ order @ '' ('' @ i @ '')''"
  have "sublist order ?r" by (rule sublist_appendI)
  moreover have "sublist i ?r"
    using sublist_appendI [of i "''You have successfully ordered '' @ order @ '' (''" "'')''"]
    by simp
  ultimately show ?thesis
    unfolding placeOrder_result by (simp add: collection_after_placeOrder)
qed

text \<open>
  Claim C5. For every string \<open>id\<close>, \<^verbatim>\<open>trackOrder(id)\<close> returns one and the same string
  on any two managers in any two states; \<open>id\<close> and \<^verbatim>\<open>20 minutes\<close> occur in that
  string; and the call leaves the manager and the whole state, so also the collection,
  as they were.
\<close>

theorem trackOrder_fixed_message:
  "\<exists>r. trackOrder m1 (JString i) s1 = Inr (JString r, m1, s1)
     \<and> trackOrder m2 (JString i) s2 = Inr (JString r, m2, s2)
     \<and> r = ''Your order '' @ i @ '' will arrive in 20 minutes.''
     \<and> sublist i r \<and> sublist ''20 minutes'' r"
proof -
  let ?r = "''Your order '' @ i @ '' will arrive in 20 minutes.''"
  have "sublist i ?r" by (rule sublist_appendI)
  moreover have "sublist ''20 minutes'' ?r"
    using sublist_appendI [of "''20 minutes''" "''Your order '' @ i @ '' will arrive in ''" "''.''"]
    by simp
  ultimately show ?thesis
    by (simp add: trackOrder_def)
qed

text \<open>
  Claim C9. When the collection already holds \<open>id\<close>, \<^verbatim>\<open>placeOrder(order, id)\<close> still
  completes normally, and \<open>id\<close> occurs once more in the collection than before: nothing
  keeps identifiers unique.
\<close>

theorem placeOrder_permits_duplicates:
  assumes "JString i \<in> set (collection m s)"
  shows "\<exists>r s'. placeOrder m order (JString i) s = Inr (r, m, s')
     \<and> count_list (collection m s') (JString i) = count_list (collection m s) (JString i) + 1"
  unfolding placeOrder_result by (simp add: collection_after_placeOrder)

theorem placeOrder_permits_duplicates_witness:
  "\<exists>r s'. placeOrder \<lparr>orders = 0\<rparr> (JString ''yuca'') (JString ''311'')
             \<lparr>arrays = (\<lambda>a. [])(0 := [JString ''311'']), fresh = 1, console = []\<rparr>
             = Inr (r, \<lparr>orders = 0\<rparr>, s')
     \<and> count_list (collection \<lparr>orders = 0\<rparr> s') (JString ''311'') = 2"
  using placeOrder_permits_duplicates [of "''311''" "\<lparr>orders = 0\<rparr>"
      "\<lparr>arrays = (\<lambda>a. [])(0 := [JString ''311'']), fresh = 1, console = []\<rparr>" "JString ''yuca''"]
  by (auto simp add: collection_def)

text \<open>
  Claim C10. For every string \<open>id\<close> and every state, the collection after
  \<^verbatim>\<open>cancelOrder(id)\<close> is the collection before with the occurrences of \<open>id\<close> deleted:
  the elements that stay keep their relative order.
\<close>

theorem cancelOrder_keeps_order:
  "\<exists>r m' s'. cancelOrder m (JString i) s = Inr (r, m', s')
     \<and> collection m' s' = removeAll (JString i) (collection m s)
     \<and> subseq (collection m' s') (collection m s)"
proof -
  let ?ys = "filter (\<lambda>order. order \<noteq> JString i) (collection m s)"
  have "?ys = removeAll (JString i) (collection m s)"
    by (rule filter_neq_removeAll)
  moreover have "subseq ?ys (collection m s)"
    by (rule subseq_filter_left)
  ultimately show ?thesis
    unfolding cancelOrder_result
    by (simp add: collection_after_cancelOrder) (simp add: collection_def)
qed

section \<open>Normal completion of every operation\<close>

text \<open>
  Claim C6. For all string arguments, every state of the direct manager, and every state
  in which the dispatching manager's collection holds strings, each of the three methods
  of the direct manager and \<^verbatim>\<open>execute\<close> on each of the three factory commands
  completes normally: none raises an exception. An identifier that is not in the
  collection is no failure either: \<^verbatim>\<open>cancelOrder\<close> then completes with the collection
  as it was.
\<close>

theorem operations_complete_normally:
  assumes "collection1 m1 s = map JString xs"
  shows "(\<exists>r. placeOrder m (JString order) (JString i) s = Inr r)
     \<and> (\<exists>r. trackOrder m (JString i) s = Inr r)
     \<and> (\<exists>r. cancelOrder m (JString i) s = Inr r)
     \<and> (\<exists>r. OrderManager1_execute m1 (PlaceOrderCommand (JString order) (JString i)) args s = Inr r)
     \<and> (\<exists>r. OrderManager1_execute m1 (TrackOrderCommand (JString i)) args s = Inr r)
     \<and> (\<exists>r. OrderManager1_execute m1 (CancelOrderCommand (JString i)) args s = Inr r)
     \<and> (JString i \<notin> set (collection m s) \<longrightarrow>
          (\<exists>r m' s'. cancelOrder m (JString i) s = Inr (r, m', s')
             \<and> collection m' s' = collection m s))"
proof -
  from assms have strs: "arrays s (orders1 m1) = map JString xs"
    by (simp add: collection1_def)
  have "\<exists>r. OrderManager1_execute m1 (CancelOrderCommand (JString i)) args s = Inr r"
    by (simp add: OrderManager1_execute_def CancelOrderCommand_result [OF strs])
  moreover have "JString i \<notin> set (collection m s) \<longrightarrow>
      filter (\<lambda>order. order \<noteq> JString i) (collection m s) = collection m s"
    by (auto simp add: filter_id_conv)
  then have "JString i \<notin> set (collection m s) \<longrightarrow>
          (\<exists>r m' s'. cancelOrder m (JString i) s = Inr (r, m', s')
             \<and> collection m' s' = collection m s)"
    unfolding cancelOrder_result
    by (simp add: collection_after_cancelOrder) (simp add: collection_def)
  ultimately show ?thesis
    by (simp add: placeOrder_result trackOrder_def cancelOrder_result
          OrderManager1_execute_def PlaceOrderCommand_result TrackOrderCommand_result)
qed

theorem operations_complete_normally_witness:
  "(\<exists>r. cancelOrder \<lparr>orders = 0\<rparr> (JString ''42'')
           \<lparr>arrays = (\<lambda>a. [])(0 := [JString ''311''], 1 := [JString ''1234'']),
            fresh = 2, console = []\<rparr> = Inr r)
   \<and> (\<exists>r. OrderManager1_execute \<lparr>orders1 = 1\<rparr> (CancelOrderCommand (JString ''42'')) []
           \<lparr>arrays = (\<lambda>a. [])(0 := [JString ''311''], 1 := [JString ''1234'']),
            fresh = 2, console = []\<rparr> = Inr r)"
  using operations_complete_normally [of "\<lparr>orders1 = 1\<rparr>"
      "\<lparr>arrays = (\<lambda>a. [])(0 := [JString ''311''], 1 := [JString ''1234'']),
        fresh = 2, console = []\<rparr>"
      "[''1234'']" "\<lparr>orders = 0\<rparr>" "''yuca''" "''42''" "[]"]
  by (simp add: collection1_def collection_def)

section \<open>The two runs of the script\<close>

text \<open>
  Claim C7. From any state, a new direct manager has an empty collection; after
  \<^verbatim>\<open>placeOrder("yuca", "311")\<close> the collection is \<^verbatim>\<open>["311"]\<close>; and
  \<^verbatim>\<open>cancelOrder("311")\<close> then gives a collection without \<^verbatim>\<open>"311"\<close> (the empty
  one). The \<^verbatim>\<open>trackOrder("311")\<close> that the script calls in between changes nothing.
\<close>

theorem direct_manager_scenario:
  "\<exists>m s1 r1 s2 r2 m3 s3.
       OrderManager_new s0 = (m, s1) \<and> collection m s1 = []
     \<and> placeOrder m (JString ''yuca'') (JString ''311'') s1 = Inr (r1, m, s2)
     \<and> collection m s2 = [JString ''311'']
     \<and> trackOrder m (JString ''311'') s2
         = Inr (JString ''Your order 311 will arrive in 20 minutes.'', m, s2)
     \<and> cancelOrder m (JString ''311'') s2 = Inr (r2, m3, s3)
     \<and> JString ''311'' \<notin> set (collection m3 s3)
     \<and> collection m3 s3 = []"
  by (simp add: OrderManager_new_def array_alloc_def placeOrder_result trackOrder_def
        cancelOrder_result collection_def)

text \<open>
  Claim C8. From any state, a new dispatching manager has an empty collection; after
  executing \<^verbatim>\<open>PlaceOrderCommand("Pad Thai", "1234")\<close> its collection contains
  \<^verbatim>\<open>"1234"\<close>; executing \<^verbatim>\<open>TrackOrderCommand("1234")\<close> next appends the ETA line to the
  console and leaves the collection, and every array, as it was.
\<close>

theorem command_manager_scenario:
  "\<exists>m s1 s2 s3.
       OrderManager1_new s0 = (m, s1) \<and> collection1 m s1 = []
     \<and> OrderManager1_execute m (PlaceOrderCommand (JString ''Pad Thai'') (JString ''1234'')) [] s1
         = Inr (JUndefined, s2)
     \<and> JString ''1234'' \<in> set (collection1 m s2)
     \<and> console s2 = console s0 @ [''You have successfully ordered Pad Thai (1234)'']
     \<and> OrderManager1_execute m (TrackOrderCommand (JString ''1234'')) [] s2
         = Inr (JUndefined, s3)
     \<and> console s3 = console s2 @ [''Your order 1234 will arrive in 20 minutes.'']
     \<and> collection1 m s3 = collection1 m s2
     \<and> arrays s3 = arrays s2"
  by (simp add: OrderManager1_new_def array_alloc_def OrderManager1_execute_def
        PlaceOrderCommand_result TrackOrderCommand_result collection1_def console_log_def)

end
